theory Spec2Isabelle
  imports Complex_Main "HOL-Library.AList"
begin

section \<open>Basic types\<close>

text \<open>
  Document identifiers (Mongo ObjectIds) are modelled as natural numbers: an ObjectId is a
  fixed-width hexadecimal value, so the order of its string form (the order JavaScript's
  default \<^verbatim>\<open>sort()\<close> uses) is the numeric order.  Dates are milliseconds since the epoch;
  a request is handled at one instant \<open>now\<close>, which every \<^verbatim>\<open>Date.now()\<close> and
  \<^verbatim>\<open>new Date()\<close> within it gives.  JavaScript Numbers that hold counters are integers.
\<close>

type_synonym oid = nat
type_synonym date = int

text \<open>What a route answers when it does not succeed: the HTTP status and the message.\<close>

datatype http_error = HttpError nat string

text \<open>Exceptions raised below the route boundary; every route turns them into status 500.\<close>

datatype exn = ValidationError | DuplicateKey | SyntaxError | TypeError | UploadError | QueryError

definition server_error :: http_error where
  "server_error = HttpError 500 ''Server error''"

section \<open>Decimal rendering of numbers (template literals)\<close>

definition digit_char :: "nat \<Rightarrow> char" where
  "digit_char d = ''0123456789'' ! d"

fun show_nat :: "nat \<Rightarrow> string" where
  "show_nat n = (if n < 10 then [digit_char n] else show_nat (n div 10) @ [digit_char (n mod 10)])"

declare show_nat.simps [simp del]

definition show_int :: "int \<Rightarrow> string" where
  "show_int i = (if i < 0 then ''-'' @ show_nat (nat (- i)) else show_nat (nat i))"

section \<open>User model (server/models/User.js)\<close>

record badge =
  b_name :: string
  b_description :: string
  b_earnedAt :: date

text \<open>
  The gamification and statistics fields of the user schema.  The profile fields (email,
  password hash, name, avatar, phone, location, bio, notification preferences) take no part
  in any operation modelled here and are left out.
\<close>

record user =
  u_id :: oid
  points :: int
  level :: int
  badges :: "badge list"
  itemsPosted :: int
  itemsReturned :: int
  helpfulRating :: int

text \<open>The schema defaults of a freshly registered user.\<close>

definition new_user :: "oid \<Rightarrow> user" where
  "new_user i = \<lparr>u_id = i, points = 0, level = 1, badges = [], itemsPosted = 0,
     itemsReturned = 0, helpfulRating = 0\<rparr>"

definition level_badge :: "date \<Rightarrow> int \<Rightarrow> badge" where
  "level_badge now newLevel =
     \<lparr>b_name = ''Level '' @ show_int newLevel,
      b_description = ''Reached level '' @ show_int newLevel @ ''!'',
      b_earnedAt = now\<rparr>"

text \<open>
  \<^verbatim>\<open>userSchema.methods.addPoints\<close>: the in-memory effect on the document; the caller
  persists the returned document (\<^verbatim>\<open>this.save()\<close>).  \<^verbatim>\<open>Math.floor(points / 100)\<close> is
  \<open>div\<close> on integers, which rounds towards minus infinity as \<^verbatim>\<open>Math.floor\<close> does.
\<close>

definition addPoints :: "date \<Rightarrow> int \<Rightarrow> user \<Rightarrow> user" where
  "addPoints now pts u =
     (let u1 = u\<lparr>points := points u + pts\<rparr>;
          newLevel = points u1 div 100 + 1
      in if newLevel > level u1
         then u1\<lparr>level := newLevel, badges := badges u1 @ [level_badge now newLevel]\<rparr>
         else u1)"

text \<open>A sequence of \<^verbatim>\<open>addPoints\<close> calls, each with its time and its amount, in order.\<close>

fun addPointsSeq :: "(date \<times> int) list \<Rightarrow> user \<Rightarrow> user" where
  "addPointsSeq [] u = u"
| "addPointsSeq (c # cs) u = addPointsSeq cs (addPoints (fst c) (snd c) u)"

definition level_ok :: "user \<Rightarrow> bool" where
  "level_ok u \<longleftrightarrow> level u = points u div 100 + 1"

section \<open>Item model (itemSchema in server/models/Chat.js)\<close>

record image =
  url :: string
  publicId :: string
  caption :: string

record coordinates =
  lat :: real
  lng :: real

record geo_location =
  address :: string
  city :: string
  l_state :: "string option"
  country :: "string option"
  coordinates :: coordinates

record contact_info =
  phone :: "string option"
  email :: "string option"
  preferredContact :: string

record reward_info =
  amount :: "real option"
  currency :: string
  r_description :: "string option"

text \<open>
  The title of an item is a JavaScript string, a list of UTF-16 code units; \<open>ascii\<close>
  gives the code units of a text of ASCII characters.
\<close>

type_synonym utf16 = "nat list"

definition ascii :: "string \<Rightarrow> utf16" where
  "ascii s = map of_char s"

record potential_match =
  pm_itemId :: oid
  confidence :: real
  matchedAt :: date

record item =
  i_id :: oid
  title :: utf16
  description :: string
  itype :: string
  category :: string
  images :: "image list"
  location :: geo_location
  i_date :: date
  status :: string
  isResolved :: bool
  resolvedAt :: "date option"
  resolvedBy :: "oid option"
  contactInfo :: "contact_info option"
  reward :: "reward_info option"
  tags :: "string list"
  views :: int
  qrCode :: "string option"
  potentialMatches :: "potential_match list"
  postedBy :: oid
  expiresAt :: date

definition categories :: "string list" where
  "categories = [''Electronics'', ''Documents'', ''Jewelry'', ''Clothing'', ''Pets'', ''Books'',
     ''Sports Equipment'', ''Musical Instruments'', ''Other'']"

text \<open>
  The \<^verbatim>\<open>trim: true\<close> setter of the title is \<^verbatim>\<open>String.prototype.trim\<close>, which strips
  the white space and the line terminators of ECMAScript: TAB, LF, VT, FF, CR, SPACE, U+00A0,
  U+1680, U+2000 to U+200A, U+2028, U+2029, U+202F, U+205F, U+3000 and U+FEFF.
\<close>

definition is_space :: "nat \<Rightarrow> bool" where
  "is_space c \<longleftrightarrow>
     c \<in> set [0x09, 0x0A, 0x0B, 0x0C, 0x0D, 0x20, 0xA0, 0x1680, 0x2028, 0x2029, 0x202F, 0x205F,
              0x3000, 0xFEFF] \<or>
     (0x2000 \<le> c \<and> c \<le> 0x200A)"

definition trim :: "utf16 \<Rightarrow> utf16" where
  "trim s = rev (dropWhile is_space (rev (dropWhile is_space s)))"

text \<open>
  The validators of the item schema that can fail on the documents of this model: required
  strings (the required validator rejects the empty string), maximal lengths and enums.
\<close>

definition validate_contact :: "contact_info option \<Rightarrow> bool" where
  "validate_contact c =
     (case c of None \<Rightarrow> True
      | Some ci \<Rightarrow> preferredContact ci \<in> set [''phone'', ''email'', ''both''])"

definition validate_item :: "item \<Rightarrow> bool" where
  "validate_item it \<longleftrightarrow>
     title it \<noteq> [] \<and> length (title it) \<le> 100 \<and>
     description it \<noteq> [] \<and> length (description it) \<le> 1000 \<and>
     itype it \<in> set [''lost'', ''found''] \<and>
     category it \<in> set categories \<and>
     address (location it) \<noteq> [] \<and> city (location it) \<noteq> [] \<and>
     status it \<in> set [''active'', ''resolved'', ''expired''] \<and>
     validate_contact (contactInfo it)"

text \<open>\<^verbatim>\<open>itemSchema.methods.markAsResolved\<close> (the in-memory effect; the caller persists).\<close>

definition markAsResolved :: "date \<Rightarrow> oid \<Rightarrow> item \<Rightarrow> item" where
  "markAsResolved now resolvedByUserId it =
     it\<lparr>status := ''resolved'', isResolved := True, resolvedAt := Some now,
        resolvedBy := Some resolvedByUserId\<rparr>"

text \<open>\<^verbatim>\<open>itemSchema.methods.addPotentialMatch\<close>.\<close>

definition addPotentialMatch :: "date \<Rightarrow> oid \<Rightarrow> real \<Rightarrow> item \<Rightarrow> item" where
  "addPotentialMatch now itemId conf it =
     (case find (\<lambda>m. pm_itemId m = itemId) (potentialMatches it) of
        None \<Rightarrow> it\<lparr>potentialMatches := potentialMatches it @
                  [\<lparr>pm_itemId = itemId, confidence = conf, matchedAt = now\<rparr>]\<rparr>
      | Some existingMatch \<Rightarrow> it)"

text \<open>
  A point as the database works with it.  The schema declares \<^verbatim>\<open>location.coordinates\<close>
  as an embedded document with the fields \<^verbatim>\<open>lat\<close> and \<^verbatim>\<open>lng\<close>, in this order (the form
  of the client fills them in this order too), under a \<^verbatim>\<open>2dsphere\<close> index.  The index reads
  such a document as a legacy coordinate pair: its first field is the longitude and its
  second field the latitude, whatever their names.  The queries give their point as GeoJSON,
  \<^verbatim>\<open>coordinates: [coordinates.lng, coordinates.lat]\<close>, longitude first.
\<close>

record geo_point =
  longitude :: real
  latitude :: real

definition legacy_point :: "coordinates \<Rightarrow> geo_point" where
  "legacy_point c = \<lparr>longitude = lat c, latitude = lng c\<rparr>"

definition geojson_point :: "coordinates \<Rightarrow> geo_point" where
  "geojson_point c = \<lparr>longitude = lng c, latitude = lat c\<rparr>"

text \<open>
  The database accepts a point whose longitude is between -180 and 180 and whose latitude
  is between -90 and 90.  It refuses to store a document whose indexed point is out of these
  bounds, and it rejects a query whose point is.
\<close>

definition valid_point :: "geo_point \<Rightarrow> bool" where
  "valid_point p \<longleftrightarrow> - 180 \<le> longitude p \<and> longitude p \<le> 180 \<and>
                     - 90 \<le> latitude p \<and> latitude p \<le> 90"

definition geo_indexable :: "item \<Rightarrow> bool" where
  "geo_indexable it \<longleftrightarrow> valid_point (legacy_point (coordinates (location it)))"

text \<open>
  The \<^verbatim>\<open>$near\<close> operator with \<^verbatim>\<open>$maxDistance\<close>: the documents whose indexed point is
  within the distance of the query point, nearest first.  The distance in metres between two
  points on the sphere is the parameter \<open>sphere_dist\<close>.
\<close>

definition near :: "(geo_point \<Rightarrow> geo_point \<Rightarrow> real) \<Rightarrow> geo_point \<Rightarrow> real \<Rightarrow> item list \<Rightarrow> item list" where
  "near sphere_dist q maxDistance xs =
     sort_key (\<lambda>x. sphere_dist q (legacy_point (coordinates (location x))))
       (filter (\<lambda>x. sphere_dist q (legacy_point (coordinates (location x))) \<le> maxDistance) xs)"

definition oppositeType :: "string \<Rightarrow> string" where
  "oppositeType t = (if t = ''lost'' then ''found'' else ''lost'')"

text \<open>\<^verbatim>\<open>itemSchema.statics.findPotentialMatches\<close>, over the item collection.\<close>

definition findPotentialMatches ::
  "(geo_point \<Rightarrow> geo_point \<Rightarrow> real) \<Rightarrow> oid \<Rightarrow> string \<Rightarrow> string \<Rightarrow> coordinates \<Rightarrow> item list \<Rightarrow>
   exn + item list" where
  "findPotentialMatches sphere_dist itemId type cat coords coll =
     (if \<not> valid_point (geojson_point coords) then Inl QueryError
      else Inr (take 10
             (near sphere_dist (geojson_point coords) 50000
                (filter (\<lambda>x. i_id x \<noteq> itemId \<and> itype x = oppositeType type \<and> category x = cat \<and>
                              status x = ''active'') coll))))"

section \<open>Chat model (chatSchema in server/models/Chat.js)\<close>

record last_message =
  lm_content :: "string option"
  lm_sender :: "oid option"
  lm_timestamp :: date

text \<open>
  \<^verbatim>\<open>unreadCount\<close> is a JavaScript Map from user id to Number: an association list that
  \<open>AList.update\<close> changes in place for a known key and extends at the end for a new one.
\<close>

record chat =
  c_id :: oid
  participants :: "oid list"
  c_itemId :: oid
  lastMessage :: last_message
  unreadCount :: "(oid \<times> int) list"
  isActive :: bool
  startedAt :: date
  lastActivity :: date

text \<open>\<^verbatim>\<open>this.unreadCount.get(userId.toString()) || 0\<close>\<close>

definition unread_of :: "chat \<Rightarrow> oid \<Rightarrow> int" where
  "unread_of c userId = (case map_of (unreadCount c) userId of None \<Rightarrow> 0 | Some n \<Rightarrow> n)"

text \<open>\<^verbatim>\<open>chatSchema.methods.markAsRead\<close> (the in-memory effect; the caller persists).\<close>

definition chat_markAsRead :: "date \<Rightarrow> oid \<Rightarrow> chat \<Rightarrow> chat" where
  "chat_markAsRead now userId c =
     c\<lparr>unreadCount := AList.update userId 0 (unreadCount c), lastActivity := now\<rparr>"

text \<open>\<^verbatim>\<open>chatSchema.methods.incrementUnread\<close>.\<close>

definition incrementUnread :: "date \<Rightarrow> oid \<Rightarrow> chat \<Rightarrow> chat" where
  "incrementUnread now userId c =
     (let currentCount = unread_of c userId
      in c\<lparr>unreadCount := AList.update userId (currentCount + 1) (unreadCount c),
           lastActivity := now\<rparr>)"

section \<open>Message model (messageSchema, src/unnamed/part_000)\<close>

record read_receipt =
  rb_userId :: oid
  rb_readAt :: date

record msg_location =
  ml_lat :: real
  ml_lng :: real
  ml_address :: string

record message =
  m_id :: oid
  m_chatId :: oid
  sender :: oid
  content :: string
  messageType :: string
  imageUrl :: "string option"
  imageCaption :: "string option"
  m_location :: "msg_location option"
  isRead :: bool
  readAt :: "date option"
  readBy :: "read_receipt list"
  edited :: bool
  createdAt :: date

text \<open>\<^verbatim>\<open>readBy: { $not: { $elemMatch: { userId: userId } } }\<close>\<close>

definition not_read_by :: "oid \<Rightarrow> message \<Rightarrow> bool" where
  "not_read_by userId m \<longleftrightarrow> \<not> list_ex (\<lambda>r. rb_userId r = userId) (readBy m)"

text \<open>\<^verbatim>\<open>messageSchema.statics.getUnreadCount\<close>, over the message collection.\<close>

definition getUnreadCount :: "oid \<Rightarrow> oid \<Rightarrow> message list \<Rightarrow> nat" where
  "getUnreadCount chatId userId coll =
     length (filter (\<lambda>m. m_chatId m = chatId \<and> sender m \<noteq> userId \<and> not_read_by userId m) coll)"

definition validate_message :: "message \<Rightarrow> bool" where
  "validate_message m \<longleftrightarrow>
     content m \<noteq> [] \<and> length (content m) \<le> 1000 \<and>
     messageType m \<in> set [''text'', ''image'', ''location'', ''system'']"

section \<open>The database\<close>

text \<open>
  The four collections, each in insertion order.  A request runs alone against the
  database: the state is passed in and the new state returned.  \<^verbatim>\<open>doc.save()\<close> of a
  loaded document writes it back under its id.
\<close>

record db =
  users :: "user list"
  items :: "item list"
  chats :: "chat list"
  messages :: "message list"

definition fresh_id :: "oid list \<Rightarrow> oid" where
  "fresh_id ids = Suc (fold max ids 0)"

definition save_user :: "user \<Rightarrow> db \<Rightarrow> db" where
  "save_user u d = d\<lparr>users := map (\<lambda>x. if u_id x = u_id u then u else x) (users d)\<rparr>"

definition save_item :: "item \<Rightarrow> db \<Rightarrow> db" where
  "save_item it d = d\<lparr>items := map (\<lambda>x. if i_id x = i_id it then it else x) (items d)\<rparr>"

definition save_chat :: "chat \<Rightarrow> db \<Rightarrow> db" where
  "save_chat c d = d\<lparr>chats := map (\<lambda>x. if c_id x = c_id c then c else x) (chats d)\<rparr>"

definition user_by_id :: "oid \<Rightarrow> db \<Rightarrow> user option" where
  "user_by_id i d = find (\<lambda>u. u_id u = i) (users d)"

definition item_by_id :: "oid \<Rightarrow> db \<Rightarrow> item option" where
  "item_by_id i d = find (\<lambda>x. i_id x = i) (items d)"

definition chat_by_id :: "oid \<Rightarrow> db \<Rightarrow> chat option" where
  "chat_by_id i d = find (\<lambda>c. c_id c = i) (chats d)"

section \<open>Chat.findOrCreate\<close>

text \<open>
  \<^verbatim>\<open>chatSchema.index({ participants: 1, itemId: 1 }, { unique: true })\<close>: \<^verbatim>\<open>participants\<close>
  is an array, so the index is multikey: a chat contributes one key (participant, itemId) per
  element of its array (one key with a null participant when the array is empty), and the
  unique constraint holds between the keys of different documents.  An insert is rejected
  with a duplicate key error when a key of the new chat is a key of a stored one.
\<close>

definition index_keys :: "chat \<Rightarrow> (oid option \<times> oid) list" where
  "index_keys c =
     (if participants c = [] then [(None, c_itemId c)]
      else map (\<lambda>p. (Some p, c_itemId c)) (participants c))"

definition duplicate_key :: "chat \<Rightarrow> chat list \<Rightarrow> bool" where
  "duplicate_key c coll \<longleftrightarrow>
     list_ex (\<lambda>c'. list_ex (\<lambda>k. k \<in> set (index_keys c')) (index_keys c)) coll"

text \<open>The document \<^verbatim>\<open>new Chat({participants, itemId})\<close> with the schema defaults.\<close>

definition new_chat :: "date \<Rightarrow> oid \<Rightarrow> oid list \<Rightarrow> oid \<Rightarrow> chat" where
  "new_chat now i ps itemId =
     \<lparr>c_id = i, participants = ps, c_itemId = itemId,
      lastMessage = \<lparr>lm_content = None, lm_sender = None, lm_timestamp = now\<rparr>,
      unreadCount = [], isActive = True, startedAt = now, lastActivity = now\<rparr>"

text \<open>
  \<^verbatim>\<open>chatSchema.statics.findOrCreate\<close>.  \<^verbatim>\<open>$all\<close> matches a chat whose participants
  contain every element of the sorted pair; \<^verbatim>\<open>findOne\<close> answers the first match.
\<close>

definition findOrCreate :: "date \<Rightarrow> oid \<Rightarrow> oid \<Rightarrow> oid \<Rightarrow> db \<Rightarrow> exn + (chat \<times> db)" where
  "findOrCreate now userId1 userId2 itemId d =
     (let ps = sort [userId1, userId2]
      in case find (\<lambda>c. set ps \<subseteq> set (participants c) \<and> c_itemId c = itemId) (chats d) of
           Some c \<Rightarrow> Inr (c, d)
         | None \<Rightarrow>
             (let c = new_chat now (fresh_id (map c_id (chats d))) ps itemId
              in if duplicate_key c (chats d) then Inl DuplicateKey
                 else Inr (c, d\<lparr>chats := chats d @ [c]\<rparr>)))"

section \<open>Saving a new message (the pre-save hook of messageSchema)\<close>

text \<open>
  The data a route gives to \<^verbatim>\<open>new Message(...)\<close>; the rest of the document comes from
  the schema defaults.
\<close>

definition new_message ::
  "date \<Rightarrow> oid \<Rightarrow> oid \<Rightarrow> oid \<Rightarrow> string \<Rightarrow> string \<Rightarrow> string option \<Rightarrow> string option \<Rightarrow>
   msg_location option \<Rightarrow> message" where
  "new_message now i chatId sndr txt mtype iurl icap loc =
     \<lparr>m_id = i, m_chatId = chatId, sender = sndr, content = txt, messageType = mtype,
      imageUrl = iurl, imageCaption = icap, m_location = loc, isRead = False, readAt = None,
      readBy = [], edited = False, createdAt = now\<rparr>"

text \<open>
  The hook of a new message: the chat's \<^verbatim>\<open>lastMessage\<close> and \<^verbatim>\<open>lastActivity\<close> are
  set, the chat is read again, and \<^verbatim>\<open>incrementUnread\<close> runs for every participant that is
  not the sender.  Nothing happens when the chat does not exist.
\<close>

definition pre_save_hook :: "message \<Rightarrow> db \<Rightarrow> db" where
  "pre_save_hook m d =
     (let d1 = d\<lparr>chats := map (\<lambda>c. if c_id c = m_chatId m
                      then c\<lparr>lastMessage := \<lparr>lm_content = Some (content m),
                                lm_sender = Some (sender m), lm_timestamp = createdAt m\<rparr>,
                             lastActivity := createdAt m\<rparr>
                      else c) (chats d)\<rparr>
      in case chat_by_id (m_chatId m) d1 of
           None \<Rightarrow> d1
         | Some c \<Rightarrow>
             save_chat
               (fold (\<lambda>participantId ch.
                        if participantId \<noteq> sender m
                        then incrementUnread (createdAt m) participantId ch else ch)
                     (participants c) c)
               d1)"

text \<open>What the hook makes of the chat \<open>c\<close> of a new message \<open>m\<close>.\<close>

definition hook_chat :: "message \<Rightarrow> chat \<Rightarrow> chat" where
  "hook_chat m c =
     fold (\<lambda>p ch. if p \<noteq> sender m then incrementUnread (createdAt m) p ch else ch) (participants c)
       (c\<lparr>lastMessage := \<lparr>lm_content = Some (content m), lm_sender = Some (sender m),
                            lm_timestamp = createdAt m\<rparr>,
          lastActivity := createdAt m\<rparr>)"

text \<open>
  \<^verbatim>\<open>message.save()\<close> of a new document: validation first (a failure rejects the save
  before the hook runs), then the hook, then the insert.
\<close>

definition message_save :: "message \<Rightarrow> db \<Rightarrow> exn + (message \<times> db)" where
  "message_save m d =
     (if \<not> validate_message m then Inl ValidationError
      else let d1 = pre_save_hook m d
           in Inr (m, d1\<lparr>messages := messages d1 @ [m]\<rparr>))"

section \<open>Request bodies\<close>

text \<open>
  A text field of a form that the route gives to \<^verbatim>\<open>JSON.parse\<close>: \<open>Absent\<close> when the
  field is missing or empty (falsy), \<open>Malformed\<close> when its text is not JSON of the schema's
  shape (the request then fails with status 500 before anything is written), \<open>Parsed v\<close>
  otherwise.
\<close>

datatype 'a json_field = Absent | Malformed | Parsed 'a

text \<open>\<^verbatim>\<open>JSON.parse(x)\<close>; \<^verbatim>\<open>JSON.parse(undefined)\<close> throws.\<close>

definition parse_required :: "'a json_field \<Rightarrow> exn + 'a" where
  "parse_required f = (case f of Absent \<Rightarrow> Inl SyntaxError | Malformed \<Rightarrow> Inl SyntaxError
                        | Parsed v \<Rightarrow> Inr v)"

text \<open>\<^verbatim>\<open>x ? JSON.parse(x) : dflt\<close>\<close>

definition parse_optional :: "'a \<Rightarrow> 'a json_field \<Rightarrow> exn + 'a" where
  "parse_optional dflt f = (case f of Absent \<Rightarrow> Inr dflt | Malformed \<Rightarrow> Inl SyntaxError
                             | Parsed v \<Rightarrow> Inr v)"

text \<open>JavaScript truthiness of a string field: present and not empty.\<close>

definition truthy :: "'a list option \<Rightarrow> bool" where
  "truthy f = (case f of None \<Rightarrow> False | Some v \<Rightarrow> v \<noteq> [])"

definition or_empty :: "'a list option \<Rightarrow> 'a list" where
  "or_empty f = (case f of None \<Rightarrow> [] | Some v \<Rightarrow> v)"

text \<open>
  The body of an item request.  The routes read the named fields only; every other key of
  the body is in \<open>bd_other\<close>.
\<close>

record item_body =
  bd_title :: "utf16 option"
  bd_description :: "string option"
  bd_type :: "string option"
  bd_category :: "string option"
  bd_location :: "geo_location json_field"
  bd_date :: "date option"
  bd_tags :: "string list json_field"
  bd_reward :: "reward_info option json_field"
  bd_contactInfo :: "contact_info option json_field"
  bd_other :: "(string \<times> string) list"

record msg_body =
  mb_content :: "string option"
  mb_messageType :: "string option"
  mb_imageUrl :: "string option"
  mb_imageCaption :: "string option"
  mb_location :: "msg_location option"

section \<open>Item routes (src/unnamed/part_001)\<close>

definition thirty_days :: int where
  "thirty_days = 30 * 24 * 60 * 60 * 1000"

text \<open>
  The first half of \<^verbatim>\<open>POST /api/items\<close>: the JSON fields are parsed, the images uploaded
  (\<open>uploads\<close> holds the result of each upload, \<open>None\<close> for one that failed), the document
  built with the schema defaults (type \<^verbatim>\<open>'lost'\<close>, status \<^verbatim>\<open>'active'\<close>, expiry thirty days
  from now) and validated.
\<close>

definition build_item :: "date \<Rightarrow> oid \<Rightarrow> oid \<Rightarrow> item_body \<Rightarrow> image option list \<Rightarrow> exn + item" where
  "build_item now i userId body uploads =
     (case parse_required (bd_location body) of Inl e \<Rightarrow> Inl e | Inr parsedLocation \<Rightarrow>
      case parse_optional [] (bd_tags body) of Inl e \<Rightarrow> Inl e | Inr parsedTags \<Rightarrow>
      case parse_optional None (bd_reward body) of Inl e \<Rightarrow> Inl e | Inr parsedReward \<Rightarrow>
      case parse_optional None (bd_contactInfo body) of Inl e \<Rightarrow> Inl e | Inr parsedContactInfo \<Rightarrow>
      case those uploads of None \<Rightarrow> Inl UploadError | Some uploadedImages \<Rightarrow>
      case bd_date body of None \<Rightarrow> Inl ValidationError | Some d \<Rightarrow>
        (let it = \<lparr>i_id = i,
                   title = trim (or_empty (bd_title body)),
                   description = or_empty (bd_description body),
                   itype = (case bd_type body of None \<Rightarrow> ''lost'' | Some t \<Rightarrow> t),
                   category = or_empty (bd_category body),
                   images = uploadedImages,
                   location = parsedLocation,
                   i_date = d,
                   status = ''active'',
                   isResolved = False,
                   resolvedAt = None,
                   resolvedBy = None,
                   contactInfo = parsedContactInfo,
                   reward = parsedReward,
                   tags = parsedTags,
                   views = 0,
                   qrCode = None,
                   potentialMatches = [],
                   postedBy = userId,
                   expiresAt = now + thirty_days\<rparr>
         in if validate_item it then Inr it else Inl ValidationError))"

text \<open>
  \<^verbatim>\<open>POST /api/items\<close>.  The answer is the item and the number of matches, with the
  database after the request.  \<^verbatim>\<open>item.save()\<close> is refused when the index cannot read the
  coordinates; a failure after \<^verbatim>\<open>item.save()\<close> leaves the item stored.
\<close>

definition createItem ::
  "(geo_point \<Rightarrow> geo_point \<Rightarrow> real) \<Rightarrow> date \<Rightarrow> oid \<Rightarrow> item_body \<Rightarrow> image option list \<Rightarrow> db \<Rightarrow>
   (http_error + (item \<times> nat)) \<times> db" where
  "createItem sphere_dist now userId body uploads d =
     (case build_item now (fresh_id (map i_id (items d))) userId body uploads of
        Inl e \<Rightarrow> (Inl server_error, d)
      | Inr it \<Rightarrow>
          if \<not> geo_indexable it then (Inl server_error, d)
          else
          (let d1 = d\<lparr>items := items d @ [it]\<rparr>;
               d2 = d1\<lparr>users := map (\<lambda>u. if u_id u = userId
                                             then u\<lparr>itemsPosted := itemsPosted u + 1\<rparr> else u)
                                      (users d1)\<rparr>
           in case user_by_id userId d2 of
                None \<Rightarrow> (Inl server_error, d2)
              | Some u \<Rightarrow>
                  (let d3 = save_user (addPoints now 10 u) d2
                   in case findPotentialMatches sphere_dist (i_id it) (itype it) (category it)
                             (coordinates (location it)) (items d3) of
                        Inl e \<Rightarrow> (Inl server_error, d3)
                      | Inr found \<Rightarrow>
                          (let it' = fold (\<lambda>match x. addPotentialMatch now (i_id match) (7 / 10) x)
                                       found it
                           in (Inr (it', length found), save_item it' d3)))))"

text \<open>The entry that the create route adds for a match.\<close>

definition match_entry :: "date \<Rightarrow> item \<Rightarrow> potential_match" where
  "match_entry now m = \<lparr>pm_itemId = i_id m, confidence = 7 / 10, matchedAt = now\<rparr>"

text \<open>The assignments of \<^verbatim>\<open>PUT /api/items/:id\<close>, in the order of the source.\<close>

definition apply_updates :: "item_body \<Rightarrow> item \<Rightarrow> exn + item" where
  "apply_updates body it =
     (let it1 = (if truthy (bd_title body) then it\<lparr>title := trim (or_empty (bd_title body))\<rparr> else it);
          it2 = (if truthy (bd_description body)
                 then it1\<lparr>description := or_empty (bd_description body)\<rparr> else it1);
          it3 = (if truthy (bd_category body)
                 then it2\<lparr>category := or_empty (bd_category body)\<rparr> else it2)
      in case bd_location body of Malformed \<Rightarrow> Inl SyntaxError | loc \<Rightarrow>
         (let it4 = (case loc of Parsed l \<Rightarrow> it3\<lparr>location := l\<rparr> | _ \<Rightarrow> it3)
          in case bd_tags body of Malformed \<Rightarrow> Inl SyntaxError | tgs \<Rightarrow>
             (let it5 = (case tgs of Parsed t \<Rightarrow> it4\<lparr>tags := t\<rparr> | _ \<Rightarrow> it4)
              in case bd_reward body of Malformed \<Rightarrow> Inl SyntaxError | rw \<Rightarrow>
                 (let it6 = (case rw of Parsed r \<Rightarrow> it5\<lparr>reward := r\<rparr> | _ \<Rightarrow> it5)
                  in case bd_contactInfo body of Malformed \<Rightarrow> Inl SyntaxError | ci \<Rightarrow>
                       Inr (case ci of Parsed c \<Rightarrow> it6\<lparr>contactInfo := c\<rparr> | _ \<Rightarrow> it6)))))"

text \<open>An item with the seven fields that the update route assigns put back to those of \<open>old\<close>.\<close>

definition restore_editable :: "item \<Rightarrow> item \<Rightarrow> item" where
  "restore_editable old it =
     it\<lparr>title := title old, description := description old, category := category old,
        location := location old, tags := tags old, reward := reward old,
        contactInfo := contactInfo old\<rparr>"

text \<open>
  \<^verbatim>\<open>PUT /api/items/:id\<close>; \<^verbatim>\<open>item.save()\<close> is refused when validation fails or when
  the index cannot read the new coordinates.
\<close>

definition updateItem :: "oid \<Rightarrow> oid \<Rightarrow> item_body \<Rightarrow> db \<Rightarrow> (http_error + item) \<times> db" where
  "updateItem userId itemId body d =
     (case item_by_id itemId d of
        None \<Rightarrow> (Inl (HttpError 404 ''Item not found''), d)
      | Some it \<Rightarrow>
          if postedBy it \<noteq> userId then (Inl (HttpError 403 ''Not authorized''), d)
          else case apply_updates body it of
                 Inl e \<Rightarrow> (Inl server_error, d)
               | Inr it' \<Rightarrow>
                   if validate_item it' \<and> geo_indexable it' then (Inr it', save_item it' d)
                   else (Inl server_error, d))"

text \<open>
  \<^verbatim>\<open>PUT /api/items/:id/resolve\<close>.  The stored item passed validation and the index
  when it was written, and \<^verbatim>\<open>markAsResolved\<close> sets valid values, so its save succeeds.
\<close>

definition resolveItem :: "date \<Rightarrow> oid \<Rightarrow> oid \<Rightarrow> db \<Rightarrow> (http_error + item) \<times> db" where
  "resolveItem now userId itemId d =
     (case item_by_id itemId d of
        None \<Rightarrow> (Inl (HttpError 404 ''Item not found''), d)
      | Some it \<Rightarrow>
          if postedBy it \<noteq> userId then (Inl (HttpError 403 ''Not authorized''), d)
          else (let it' = markAsResolved now userId it;
                    d1 = save_item it' d
                in case user_by_id userId d1 of
                     None \<Rightarrow> (Inl server_error, d1)
                   | Some u \<Rightarrow> (Inr it', save_user (addPoints now 50 u) d1)))"

section \<open>Chat routes (src/unnamed/part_002)\<close>

text \<open>\<^verbatim>\<open>POST /api/chat/start\<close>; the answer is the chat read back at the end.\<close>

definition startChat :: "date \<Rightarrow> oid \<Rightarrow> oid \<Rightarrow> string option \<Rightarrow> db \<Rightarrow> (http_error + chat option) \<times> db" where
  "startChat now userId itemId msg d =
     (case item_by_id itemId d of
        None \<Rightarrow> (Inl (HttpError 404 ''Item not found''), d)
      | Some it \<Rightarrow>
          if postedBy it = userId then (Inl (HttpError 400 ''Cannot start chat with yourself''), d)
          else case findOrCreate now userId (postedBy it) itemId d of
                 Inl e \<Rightarrow> (Inl server_error, d)
               | Inr (c, d1) \<Rightarrow>
                   if truthy msg \<and> lm_content (lastMessage c) \<noteq> msg
                   then case message_save
                               (new_message now (fresh_id (map m_id (messages d1))) (c_id c) userId
                                  (or_empty msg) ''text'' None None None) d1 of
                          Inl e \<Rightarrow> (Inl server_error, d1)
                        | Inr (m, d2) \<Rightarrow> (Inr (chat_by_id (c_id c) d2), d2)
                   else (Inr (chat_by_id (c_id c) d1), d1))"





text \<open>\<^verbatim>\<open>POST /api/chat/:chatId/messages\<close>\<close>

definition sendMessage :: "date \<Rightarrow> oid \<Rightarrow> oid \<Rightarrow> msg_body \<Rightarrow> db \<Rightarrow> (http_error + message) \<times> db" where
  "sendMessage now userId chatId body d =
     (case chat_by_id chatId d of
        None \<Rightarrow> (Inl (HttpError 404 ''Chat not found''), d)
      | Some c \<Rightarrow>
          if userId \<notin> set (participants c)
          then (Inl (HttpError 403 ''Not authorized to send messages in this chat''), d)
          else (let mtype = (case mb_messageType body of None \<Rightarrow> ''text'' | Some t \<Rightarrow> t);
                    img = (mtype = ''image'' \<and> truthy (mb_imageUrl body));
                    m = new_message now (fresh_id (map m_id (messages d))) chatId userId
                          (or_empty (mb_content body)) mtype
                          (if img then mb_imageUrl body else None)
                          (if img then mb_imageCaption body else None)
                          (if mtype = ''location'' then mb_location body else None)
                in case message_save m d of
                     Inl e \<Rightarrow> (Inl server_error, d)
                   | Inr (m', d') \<Rightarrow> (Inr m', d')))"

text \<open>\<^verbatim>\<open>PUT /api/chat/:chatId/read\<close>\<close>

definition markChatRead :: "date \<Rightarrow> oid \<Rightarrow> oid \<Rightarrow> db \<Rightarrow> (http_error + unit) \<times> db" where
  "markChatRead now userId chatId d =
     (case chat_by_id chatId d of
        None \<Rightarrow> (Inl (HttpError 404 ''Chat not found''), d)
      | Some c \<Rightarrow>
          if userId \<notin> set (participants c)
          then (Inl (HttpError 403 ''Not authorized to access this chat''), d)
          else (Inr (), save_chat (chat_markAsRead now userId c) d))"

section \<open>Sample data\<close>

text \<open>
  A small database on which the operations are run: a distance that is flat in the
  coordinates (111 km per degree), an item posted at a given place, and seven items on the
  diagonal around the point of latitude 10 and longitude 10.
\<close>

definition flat_dist :: "geo_point \<Rightarrow> geo_point \<Rightarrow> real" where
  "flat_dist a b = 111000 * (\<bar>longitude a - longitude b\<bar> + \<bar>latitude a - latitude b\<bar>)"

definition sample_item :: "oid \<Rightarrow> oid \<Rightarrow> string \<Rightarrow> string \<Rightarrow> string \<Rightarrow> real \<Rightarrow> real \<Rightarrow> item" where
  "sample_item i owner t cat st la lo =
     \<lparr>i_id = i, title = ascii ''Phone'', description = ''Black phone'', itype = t, category = cat,
      images = [],
      location = \<lparr>address = ''1 Main St'', city = ''X'', l_state = None, country = None,
                  coordinates = \<lparr>lat = la, lng = lo\<rparr>\<rparr>,
      i_date = 0, status = st, isResolved = (st = ''resolved''), resolvedAt = None,
      resolvedBy = None, contactInfo = None, reward = None, tags = [], views = 0,
      qrCode = None, potentialMatches = [], postedBy = owner, expiresAt = thirty_days\<rparr>"

definition sample_items :: "item list" where
  "sample_items =
     [sample_item 1 1 ''lost'' ''Electronics'' ''active'' 10 10,
      sample_item 2 2 ''found'' ''Electronics'' ''active'' (101 / 10) (101 / 10),
      sample_item 3 3 ''found'' ''Electronics'' ''active'' (1001 / 100) (1001 / 100),
      sample_item 4 2 ''found'' ''Electronics'' ''active'' 50 50,
      sample_item 5 3 ''lost'' ''Electronics'' ''active'' 10 10,
      sample_item 6 2 ''found'' ''Pets'' ''active'' 10 10,
      sample_item 7 3 ''found'' ''Electronics'' ''resolved'' 10 10]"

text \<open>
  Three items off the diagonal: the lost item 1 at latitude 10 and longitude 20, the found
  item 2 at latitude 20 and longitude 10, and the found item 3 at the very place of item 1.
\<close>

definition transposed_items :: "item list" where
  "transposed_items =
     [sample_item 1 1 ''lost'' ''Electronics'' ''active'' 10 20,
      sample_item 2 2 ''found'' ''Electronics'' ''active'' 20 10,
      sample_item 3 3 ''found'' ''Electronics'' ''active'' 10 20]"

text \<open>
  One chat between the users 1 and 2 about item 1, with three messages, and a message
  body.
\<close>

definition sample_chat :: chat where
  "sample_chat =
     \<lparr>c_id = 1, participants = [1, 2], c_itemId = 1,
      lastMessage = \<lparr>lm_content = Some ''Yes'', lm_sender = Some 1, lm_timestamp = 8\<rparr>,
      unreadCount = [(1, 1), (2, 1)], isActive = True, startedAt = 5, lastActivity = 8\<rparr>"

definition sample_messages :: "message list" where
  "sample_messages =
     [(new_message 5 1 1 2 ''Hi'' ''text'' None None None)
        \<lparr>readBy := [\<lparr>rb_userId = 1, rb_readAt = 6\<rparr>]\<rparr>,
      new_message 7 2 1 2 ''Is this your phone?'' ''text'' None None None,
      new_message 8 3 1 1 ''Yes'' ''text'' None None None]"

definition sample_db :: db where
  "sample_db = \<lparr>users = [new_user 1, new_user 2, new_user 3], items = sample_items,
                 chats = [sample_chat], messages = sample_messages\<rparr>"

definition sample_body :: msg_body where
  "sample_body = \<lparr>mb_content = Some ''Thanks'', mb_messageType = None, mb_imageUrl = None,
                   mb_imageCaption = None, mb_location = None\<rparr>"

text \<open>A create request, an update request and the result of one image upload.\<close>

definition sample_location :: geo_location where
  "sample_location = \<lparr>address = ''2 Side St'', city = ''X'', l_state = None, country = None,
                       coordinates = \<lparr>lat = 10, lng = 10\<rparr>\<rparr>"

text \<open>A place in San Francisco.\<close>

definition sf_location :: geo_location where
  "sf_location = \<lparr>address = ''1 Market St'', city = ''San Francisco'', l_state = Some ''CA'',
                   country = Some ''US'',
                   coordinates = \<lparr>lat = 3777 / 100, lng = - (12241 / 100)\<rparr>\<rparr>"

definition sample_item_body :: item_body where
  "sample_item_body =
     \<lparr>bd_title = Some (ascii ''  Lost phone ''), bd_description = Some ''Black phone, cracked screen'',
      bd_type = Some ''lost'', bd_category = Some ''Electronics'',
      bd_location = Parsed sample_location, bd_date = Some 90, bd_tags = Parsed [''phone''],
      bd_reward = Absent, bd_contactInfo = Absent, bd_other = []\<rparr>"

definition sample_update_body :: item_body where
  "sample_update_body =
     \<lparr>bd_title = Some (ascii ''Lost black phone''), bd_description = None,
      bd_type = Some ''found'', bd_category = Some ''Other'',
      bd_location = Absent, bd_date = Some 1, bd_tags = Parsed [''phone'', ''black''],
      bd_reward = Absent, bd_contactInfo = Absent,
      bd_other = [(''status'', ''resolved''), (''views'', ''1000''), (''postedBy'', ''2''),
                  (''expiresAt'', ''0''), (''potentialMatches'', ''[]''), (''images'', ''[]'')]\<rparr>"

definition sf_item_body :: item_body where
  "sf_item_body = sample_item_body\<lparr>bd_location := Parsed sf_location\<rparr>"

definition sample_uploads :: "image option list" where
  "sample_uploads = [Some \<lparr>url = ''https://img/1'', publicId = ''lost-found-items/1'', caption = ''''\<rparr>]"

section \<open>Properties of addPoints\<close>

lemma level_ok_new_user: "level_ok (new_user i)"
  by (simp add: level_ok_def new_user_def)

lemma addPoints_points: "points (addPoints now pts u) = points u + pts"
  by (simp add: addPoints_def Let_def)

lemma addPoints_level_ok:
  assumes "level_ok u" and "0 \<le> pts"
  shows "level_ok (addPoints now pts u)"
proof -
  from assms(2) have "points u div 100 \<le> (points u + pts) div 100"
    by (intro zdiv_mono1) simp_all
  with assms(1) show ?thesis
    by (auto simp: level_ok_def addPoints_def Let_def)
qed

lemma addPointsSeq_level_ok:
  "level_ok u \<Longrightarrow> \<forall>c \<in> set cs. 0 \<le> snd c \<Longrightarrow> level_ok (addPointsSeq cs u)"
  by (induction cs arbitrary: u) (simp_all add: addPoints_level_ok)

lemma addPoints_badges:
  assumes "level_ok u"
  shows "badges (addPoints now pts u) =
         badges u @ (if points u div 100 < (points u + pts) div 100
                     then [level_badge now ((points u + pts) div 100 + 1)] else [])"
  using assms by (simp add: level_ok_def addPoints_def Let_def)

text \<open>
  Claim C7, as amended.  Starting from a user whose level agrees with the points (as for
  a new user) and adding non-negative amounts, \<open>level = floor(points / 100) + 1\<close> holds
  after every call of \<^verbatim>\<open>addPoints\<close>.  A call appends exactly one badge, named after the
  new level, when it raises the level (however many 100-point boundaries it crosses), and
  no badge otherwise.
\<close>

theorem addPoints_level_badge:
  assumes "level_ok u" and "\<forall>c \<in> set cs. 0 \<le> snd c" and "0 \<le> pts"
  shows "level_ok (addPointsSeq cs u) \<and>
         level_ok (addPoints now pts (addPointsSeq cs u)) \<and>
         badges (addPoints now pts (addPointsSeq cs u)) =
           badges (addPointsSeq cs u) @
           (if points (addPointsSeq cs u) div 100 < (points (addPointsSeq cs u) + pts) div 100
            then [level_badge now ((points (addPointsSeq cs u) + pts) div 100 + 1)] else [])"
proof -
  have ok: "level_ok (addPointsSeq cs u)"
    using assms(1,2) by (rule addPointsSeq_level_ok)
  show ?thesis
    using ok assms(3) by (simp add: addPoints_level_ok addPoints_badges)
qed

theorem addPoints_level_badge_witness:
  "level_ok (addPointsSeq [(1, 10), (2, 50)] (new_user 1)) \<and>
   level_ok (addPoints 3 50 (addPointsSeq [(1, 10), (2, 50)] (new_user 1))) \<and>
   badges (addPoints 3 50 (addPointsSeq [(1, 10), (2, 50)] (new_user 1))) =
     [\<lparr>b_name = ''Level 2'', b_description = ''Reached level 2!'', b_earnedAt = 3\<rparr>]"
proof -
  have h1: "level_ok (new_user 1)" by (rule level_ok_new_user)
  have h2: "\<forall>c \<in> set [(1::date, 10::int), (2, 50)]. 0 \<le> snd c" by simp
  have h3: "(0::int) \<le> 50" by simp
  show ?thesis
    using addPoints_level_badge [OF h1 h2 h3, of 3]
    by (simp add: addPoints_def new_user_def Let_def level_badge_def show_int_def
      show_nat.simps digit_char_def level_ok_def)
qed

text \<open>
  One call that takes a new user from 0 to 250 points crosses two boundaries (100 and 200)
  and appends a single badge, ``Level 3''.
\<close>

theorem addPoints_badge_per_boundary_counterexample:
  "(points (new_user 1) + 250) div 100 - points (new_user 1) div 100 = 2 \<and>
   length (badges (addPoints 0 250 (new_user 1))) = length (badges (new_user 1)) + 1 \<and>
   map b_name (badges (addPoints 0 250 (new_user 1))) = [''Level 3'']"
  by (simp add: addPoints_def new_user_def Let_def level_badge_def show_int_def
    show_nat.simps digit_char_def)

section \<open>Properties of findPotentialMatches\<close>

lemma oppositeType_differs: "oppositeType t \<noteq> t"
  by (simp add: oppositeType_def)

lemma set_near:
  "set (near sd q r xs) = {x \<in> set xs. sd q (legacy_point (coordinates (location x))) \<le> r}"
  by (simp add: near_def)

lemma sorted_near:
  "sorted (map (\<lambda>x. sd q (legacy_point (coordinates (location x)))) (near sd q r xs))"
  by (simp add: near_def)

text \<open>
  What holds of every answer of \<^verbatim>\<open>findPotentialMatches\<close>: the items are stored items
  other than \<open>itemId\<close>, of the opposite type, of the given category and active; there are
  at most 10 of them; and they are within 50000 metres of the query point and ordered by
  their distance to it, where the position of an item is its indexed point, that is its
  coordinates with latitude and longitude exchanged.
\<close>

lemma findPotentialMatches_filter:
  assumes "findPotentialMatches sd itemId type cat coords coll = Inr ms"
  shows "\<forall>m \<in> set ms.
      m \<in> set coll \<and> i_id m \<noteq> itemId \<and> itype m \<noteq> type \<and> itype m = oppositeType type \<and>
      category m = cat \<and> status m = ''active'' \<and>
      sd (geojson_point coords) (legacy_point (coordinates (location m))) \<le> 50000"
    and "length ms \<le> 10"
    and "sorted (map (\<lambda>m. sd (geojson_point coords) (legacy_point (coordinates (location m)))) ms)"
proof -
  let ?xs = "near sd (geojson_point coords) 50000
      (filter (\<lambda>x. i_id x \<noteq> itemId \<and> itype x = oppositeType type \<and> category x = cat \<and>
                        status x = ''active'') coll)"
  from assms have ms: "ms = take 10 ?xs"
    by (simp add: findPotentialMatches_def split: if_splits)
  show "\<forall>m \<in> set ms.
      m \<in> set coll \<and> i_id m \<noteq> itemId \<and> itype m \<noteq> type \<and> itype m = oppositeType type \<and>
      category m = cat \<and> status m = ''active'' \<and>
      sd (geojson_point coords) (legacy_point (coordinates (location m))) \<le> 50000"
  proof
    fix m assume "m \<in> set ms"
    then have "m \<in> set ?xs"
      unfolding ms by (rule in_set_takeD)
    then have m: "m \<in> set coll" "i_id m \<noteq> itemId" "itype m = oppositeType type" "category m = cat"
      "status m = ''active''"
      "sd (geojson_point coords) (legacy_point (coordinates (location m))) \<le> 50000"
      by (simp_all add: set_near)
    from m(3) have "itype m \<noteq> type" by (simp add: oppositeType_differs)
    with m show "m \<in> set coll \<and> i_id m \<noteq> itemId \<and> itype m \<noteq> type \<and> itype m = oppositeType type \<and>
      category m = cat \<and> status m = ''active'' \<and>
      sd (geojson_point coords) (legacy_point (coordinates (location m))) \<le> 50000"
      by simp
  qed
  show "length ms \<le> 10"
    by (simp add: ms)
  show "sorted (map (\<lambda>m. sd (geojson_point coords) (legacy_point (coordinates (location m)))) ms)"
    unfolding ms take_map [symmetric]
    by (rule sorted_wrt_take) (rule sorted_near)
qed

text \<open>
  Claim C1 says that no returned item is farther than 50 km from the given coordinates.
  Take any distance under which the point of longitude 20 and latitude 10 is at distance 0
  from itself and more than 50000 metres from the point of longitude 10 and latitude 20 (on
  the globe they are about 1500 km apart).  For the lost item 1, at latitude 10 and longitude
  20, the query returns the found item 2, which lies at latitude 20 and longitude 10, and
  does not return the found item 3, which lies at the very coordinates given: the index
  reads the stored latitude as the longitude and the stored longitude as the latitude.
\<close>

theorem findPotentialMatches_transposed:
  assumes "sd \<lparr>longitude = 20, latitude = 10\<rparr> \<lparr>longitude = 20, latitude = 10\<rparr> = 0"
    and "50000 < sd \<lparr>longitude = 20, latitude = 10\<rparr> \<lparr>longitude = 10, latitude = 20\<rparr>"
  shows "findPotentialMatches sd 1 ''lost'' ''Electronics'' \<lparr>lat = 10, lng = 20\<rparr> transposed_items =
           Inr [sample_item 2 2 ''found'' ''Electronics'' ''active'' 20 10]"
  using assms
  by (simp add: findPotentialMatches_def near_def transposed_items_def sample_item_def
      oppositeType_def geojson_point_def legacy_point_def valid_point_def)

text \<open>
  With the flat distance the two points are 2220 km apart, and the query returns item 2.
\<close>

theorem findPotentialMatches_transposed_witness:
  "flat_dist \<lparr>longitude = 20, latitude = 10\<rparr> \<lparr>longitude = 10, latitude = 20\<rparr> = 2220000 \<and>
   findPotentialMatches flat_dist 1 ''lost'' ''Electronics'' \<lparr>lat = 10, lng = 20\<rparr> transposed_items =
     Inr [sample_item 2 2 ''found'' ''Electronics'' ''active'' 20 10]"
proof -
  have h1: "flat_dist \<lparr>longitude = 20, latitude = 10\<rparr> \<lparr>longitude = 20, latitude = 10\<rparr> = 0"
    by (simp add: flat_dist_def)
  have h2: "50000 < flat_dist \<lparr>longitude = 20, latitude = 10\<rparr> \<lparr>longitude = 10, latitude = 20\<rparr>"
    by (simp add: flat_dist_def)
  show ?thesis
    using findPotentialMatches_transposed [of flat_dist, OF h1 h2] by (simp add: flat_dist_def)
qed

section \<open>Unread counts\<close>

lemma find_map_by_id:
  assumes "\<And>x. key x = i \<Longrightarrow> key (f x) = i"
  shows "find (\<lambda>x. key x = i) (map (\<lambda>x. if key x = i then f x else x) xs) =
         map_option f (find (\<lambda>x. key x = i) xs)"
  using assms by (induction xs) auto

lemma unread_of_incrementUnread:
  "unread_of (incrementUnread now p ch) B = (if B = p then unread_of ch p + 1 else unread_of ch B)"
  by (simp add: unread_of_def incrementUnread_def Let_def update_conv')

lemma participants_incrementUnread [simp]:
  "participants (incrementUnread now p ch) = participants ch"
  "c_id (incrementUnread now p ch) = c_id ch"
  by (simp_all add: incrementUnread_def Let_def)

lemma fold_increment_id:
  "c_id (fold (\<lambda>p ch. if p \<noteq> A then incrementUnread now p ch else ch) ps ch) = c_id ch"
  by (induction ps arbitrary: ch) simp_all

lemma fold_increment_participants:
  "participants (fold (\<lambda>p ch. if p \<noteq> A then incrementUnread now p ch else ch) ps ch) = participants ch"
  by (induction ps arbitrary: ch) simp_all

lemma fold_increment_unread_sender:
  "unread_of (fold (\<lambda>p ch. if p \<noteq> A then incrementUnread now p ch else ch) ps ch) A = unread_of ch A"
  by (induction ps arbitrary: ch) (simp_all add: unread_of_incrementUnread)

lemma fold_increment_unread:
  "distinct ps \<Longrightarrow>
   unread_of (fold (\<lambda>p ch. if p \<noteq> A then incrementUnread now p ch else ch) ps ch) B =
   unread_of ch B + (if B \<in> set ps \<and> B \<noteq> A then 1 else 0)"
  by (induction ps arbitrary: ch) (auto simp: unread_of_incrementUnread)

lemma messages_pre_save_hook: "messages (pre_save_hook m d) = messages d"
  by (simp add: pre_save_hook_def Let_def save_chat_def split: option.splits)

lemma chat_by_id_map_chats:
  assumes "chat_by_id i d = Some c0" and "\<And>x. c_id x = i \<Longrightarrow> c_id (f x) = i"
  shows "chat_by_id i (d\<lparr>chats := map (\<lambda>x. if c_id x = i then f x else x) (chats d)\<rparr>) = Some (f c0)"
proof -
  have "find (\<lambda>x. c_id x = i) (map (\<lambda>x. if c_id x = i then f x else x) (chats d)) =
        map_option f (find (\<lambda>x. c_id x = i) (chats d))"
    using assms(2) by (rule find_map_by_id)
  with assms(1) show ?thesis by (simp add: chat_by_id_def)
qed

lemma chat_by_id_save_chat:
  assumes "chat_by_id i d = Some c0" and "c_id c = i"
  shows "chat_by_id i (save_chat c d) = Some c"
  unfolding save_chat_def assms(2)
  using assms(1) by (rule chat_by_id_map_chats) (rule assms(2))

lemma chat_by_id_id: "chat_by_id i d = Some c \<Longrightarrow> c_id c = i"
  by (auto simp: chat_by_id_def find_Some_iff)

lemma chat_by_id_pre_save_hook:
  assumes "chat_by_id (m_chatId m) d = Some c"
  shows "chat_by_id (m_chatId m) (pre_save_hook m d) = Some (hook_chat m c)"
proof -
  let ?upd = "\<lambda>c. c\<lparr>lastMessage := \<lparr>lm_content = Some (content m), lm_sender = Some (sender m),
                            lm_timestamp = createdAt m\<rparr>, lastActivity := createdAt m\<rparr>"
  let ?d1 = "d\<lparr>chats := map (\<lambda>c. if c_id c = m_chatId m then ?upd c else c) (chats d)\<rparr>"
  have 1: "chat_by_id (m_chatId m) ?d1 = Some (?upd c)"
    using assms by (rule chat_by_id_map_chats) simp
  have id: "c_id (hook_chat m c) = m_chatId m"
    using chat_by_id_id [OF assms] by (simp add: hook_chat_def fold_increment_id)
  have "pre_save_hook m d = save_chat (hook_chat m c) ?d1"
    unfolding pre_save_hook_def Let_def 1 by (simp add: hook_chat_def)
  moreover have "chat_by_id (m_chatId m) (save_chat (hook_chat m c) ?d1) = Some (hook_chat m c)"
    using 1 id by (rule chat_by_id_save_chat)
  ultimately show ?thesis by simp
qed

lemma unread_of_hook_chat:
  "distinct (participants c) \<Longrightarrow>
   unread_of (hook_chat m c) B =
   unread_of c B + (if B \<in> set (participants c) \<and> B \<noteq> sender m then 1 else 0)"
  by (simp add: hook_chat_def fold_increment_unread) (simp add: unread_of_def)

lemma unread_of_hook_chat_sender: "unread_of (hook_chat m c) (sender m) = unread_of c (sender m)"
  by (simp add: hook_chat_def fold_increment_unread_sender) (simp add: unread_of_def)

lemma getUnreadCount_append:
  "getUnreadCount chatId B (coll @ [m]) =
   getUnreadCount chatId B coll +
   (if m_chatId m = chatId \<and> sender m \<noteq> B \<and> not_read_by B m then 1 else 0)"
  by (simp add: getUnreadCount_def)


text \<open>
  Claim C2.  When \<open>A\<close> is a participant of the chat and the message is valid (a content of
  1 to 1000 characters and a known message type), \<^verbatim>\<open>POST /api/chat/:chatId/messages\<close>
  succeeds, and afterwards \<^verbatim>\<open>getUnreadCount(chat, B)\<close> is one more than before for every
  user \<open>B\<close> other than \<open>A\<close> and is unchanged for \<open>A\<close>.  The chat's own
  \<^verbatim>\<open>unreadCount\<close> map moves the same way: one more for every other participant (the
  participants of a chat being distinct), unchanged for \<open>A\<close>.
\<close>

theorem sendMessage_unread:
  assumes c: "chat_by_id chatId d = Some c" and A: "A \<in> set (participants c)"
    and cont: "or_empty (mb_content body) \<noteq> []" "length (or_empty (mb_content body)) \<le> 1000"
    and ty: "(case mb_messageType body of None \<Rightarrow> ''text'' | Some t \<Rightarrow> t)
               \<in> set [''text'', ''image'', ''location'', ''system'']"
  shows "\<exists>m d' c'. sendMessage now A chatId body d = (Inr m, d') \<and>
           (\<forall>B. B \<noteq> A \<longrightarrow>
              getUnreadCount chatId B (messages d') = getUnreadCount chatId B (messages d) + 1) \<and>
           getUnreadCount chatId A (messages d') = getUnreadCount chatId A (messages d) \<and>
           chat_by_id chatId d' = Some c' \<and>
           (distinct (participants c) \<longrightarrow>
              (\<forall>B \<in> set (participants c). B \<noteq> A \<longrightarrow> unread_of c' B = unread_of c B + 1)) \<and>
           unread_of c' A = unread_of c A"
proof -
  define mtype where "mtype = (case mb_messageType body of None \<Rightarrow> ''text'' | Some t \<Rightarrow> t)"
  define img where "img \<longleftrightarrow> mtype = ''image'' \<and> truthy (mb_imageUrl body)"
  define m where "m = new_message now (fresh_id (map m_id (messages d))) chatId A
                          (or_empty (mb_content body)) mtype
                          (if img then mb_imageUrl body else None)
                          (if img then mb_imageCaption body else None)
                          (if mtype = ''location'' then mb_location body else None)"
  define d1 where "d1 = pre_save_hook m d"
  define d' where "d' = d1\<lparr>messages := messages d1 @ [m]\<rparr>"
  have m_simps: "m_chatId m = chatId" "sender m = A" "readBy m = []"
    by (simp_all add: m_def new_message_def)
  have valid: "validate_message m"
    using cont ty by (simp add: validate_message_def m_def new_message_def mtype_def)
  have run: "sendMessage now A chatId body d = (Inr m, d')"
    using c A valid
    by (simp add: sendMessage_def Let_def message_save_def m_def mtype_def img_def d'_def d1_def)
  have msgs: "messages d' = messages d @ [m]"
    by (simp add: d'_def d1_def messages_pre_save_hook)
  have other: "\<forall>B. B \<noteq> A \<longrightarrow>
      getUnreadCount chatId B (messages d') = getUnreadCount chatId B (messages d) + 1"
    by (simp add: msgs getUnreadCount_append m_simps not_read_by_def)
  have self: "getUnreadCount chatId A (messages d') = getUnreadCount chatId A (messages d)"
    by (simp add: msgs getUnreadCount_append m_simps)
  have "chat_by_id (m_chatId m) d1 = Some (hook_chat m c)"
    unfolding d1_def using c by (intro chat_by_id_pre_save_hook) (simp add: m_simps)
  then have c': "chat_by_id chatId d' = Some (hook_chat m c)"
    by (simp add: d'_def chat_by_id_def m_simps)
  have cnt: "distinct (participants c) \<longrightarrow>
      (\<forall>B \<in> set (participants c). B \<noteq> A \<longrightarrow> unread_of (hook_chat m c) B = unread_of c B + 1)"
    by (simp add: unread_of_hook_chat m_simps)
  have cntA: "unread_of (hook_chat m c) A = unread_of c A"
    using unread_of_hook_chat_sender [of m c] by (simp add: m_simps)
  from run other self c' cnt cntA show ?thesis by blast
qed

text \<open>
  User 1 sends a message in the sample chat: the unread count of user 2 goes from 1 to 2,
  that of user 1 stays 1, and the chat's map goes from \<open>[(1, 1), (2, 1)]\<close> to
  \<open>[(1, 1), (2, 2)]\<close>.
\<close>

theorem sendMessage_unread_witness:
  "getUnreadCount 1 2 (messages sample_db) = 1 \<and>
   getUnreadCount 1 2 (messages (snd (sendMessage 9 1 1 sample_body sample_db))) = 2 \<and>
   getUnreadCount 1 1 (messages sample_db) = 1 \<and>
   getUnreadCount 1 1 (messages (snd (sendMessage 9 1 1 sample_body sample_db))) = 1 \<and>
   unreadCount sample_chat = [(1, 1), (2, 1)] \<and>
   map_option unreadCount (chat_by_id 1 (snd (sendMessage 9 1 1 sample_body sample_db)))
     = Some [(1, 1), (2, 2)]"
proof -
  have h1: "chat_by_id 1 sample_db = Some sample_chat"
    by (simp add: chat_by_id_def sample_db_def sample_chat_def)
  have h2: "1 \<in> set (participants sample_chat)"
    by (simp add: sample_chat_def)
  have h3: "or_empty (mb_content sample_body) \<noteq> []"
    by (simp add: sample_body_def or_empty_def)
  have h4: "length (or_empty (mb_content sample_body)) \<le> 1000"
    by (simp add: sample_body_def or_empty_def)
  have h5: "(case mb_messageType sample_body of None \<Rightarrow> ''text'' | Some t \<Rightarrow> t)
               \<in> set [''text'', ''image'', ''location'', ''system'']"
    by (simp add: sample_body_def)
  show ?thesis
    using sendMessage_unread [OF h1 h2 h3 h4 h5, of 9]
    by (simp add: sendMessage_def sample_db_def sample_chat_def sample_messages_def sample_body_def
      chat_by_id_def Let_def message_save_def validate_message_def new_message_def or_empty_def
      truthy_def pre_save_hook_def save_chat_def incrementUnread_def unread_of_def
      getUnreadCount_def not_read_by_def fresh_id_def)
qed

text \<open>\<^verbatim>\<open>PUT /api/chat/:chatId/read\<close> writes the chat only: no message gets a read receipt.\<close>

lemma messages_markChatRead: "messages (snd (markChatRead now A chatId d)) = messages d"
  by (simp add: markChatRead_def save_chat_def split: option.splits)

lemma getUnreadCount_markChatRead:
  "getUnreadCount chatId A (messages (snd (markChatRead now A chatId d))) =
   getUnreadCount chatId A (messages d)"
  by (simp add: messages_markChatRead)

lemmas sample_defs = sample_db_def sample_chat_def sample_messages_def sample_items_def
  sample_item_def new_user_def new_message_def

text \<open>
  Claim C3 says that after \<^verbatim>\<open>MarkChatRead(chat, A)\<close> the count of messages of the chat
  authored by someone other than \<open>A\<close> with no \<^verbatim>\<open>readBy\<close> entry for \<open>A\<close> is 0.  In the
  sample chat user 1 has one such message (message 2, from user 2).  The request of user 1
  succeeds and sets the chat's own counter for user 1 to 0, but \<^verbatim>\<open>getUnreadCount\<close> for
  user 1 is still 1 afterwards.
\<close>

theorem markChatRead_unread_remains:
  "fst (markChatRead 9 1 1 sample_db) = Inr () \<and>
   getUnreadCount 1 1 (messages sample_db) = 1 \<and>
   getUnreadCount 1 1 (messages (snd (markChatRead 9 1 1 sample_db))) = 1 \<and>
   map_option unreadCount (chat_by_id 1 (snd (markChatRead 9 1 1 sample_db)))
     = Some [(1, 0), (2, 1)]"
  by (simp add: markChatRead_def sample_defs chat_by_id_def save_chat_def chat_markAsRead_def
      getUnreadCount_def not_read_by_def)

section \<open>Resolving an item\<close>

text \<open>
  Claim C6 says that a second \<^verbatim>\<open>Resolve\<close> of the same item by its owner awards no points.
  User 1 owns the sample item 1 and has 0 points.  The first request resolves the item and
  leaves the user with 50 points; the second request, on the item that is already resolved,
  leaves the user with 100.
\<close>

theorem resolveItem_twice_awards_twice:
  "map_option points (user_by_id 1 sample_db) = Some 0 \<and>
   map_option status (item_by_id 1 (snd (resolveItem 10 1 1 sample_db))) = Some ''resolved'' \<and>
   map_option points (user_by_id 1 (snd (resolveItem 10 1 1 sample_db))) = Some 50 \<and>
   map_option points
     (user_by_id 1 (snd (resolveItem 11 1 1 (snd (resolveItem 10 1 1 sample_db))))) = Some 100"
  by (simp add: resolveItem_def sample_defs item_by_id_def user_by_id_def save_item_def
      save_user_def markAsResolved_def addPoints_def Let_def)

section \<open>Finding or creating a chat\<close>

lemma sort_pair_commute: "sort [a, b] = sort [b, a::'a::linorder]"
  by (auto simp: insort_key.simps)

lemma find_append_None: "find P xs = None \<Longrightarrow> find P (xs @ ys) = find P ys"
  by (induction xs) (auto split: if_splits)

text \<open>
  Once \<^verbatim>\<open>findOrCreate\<close> has answered a chat, every later call for the same two users and
  item answers that chat, in either order of the users, and creates nothing.
\<close>

lemma findOrCreate_again:
  assumes "findOrCreate now A B I d = Inr (c, d')"
  shows "findOrCreate now' A B I d' = Inr (c, d') \<and> findOrCreate now' B A I d' = Inr (c, d')"
proof -
  let ?P = "\<lambda>c. set (sort [A, B]) \<subseteq> set (participants c) \<and> c_itemId c = I"
  have again: "find ?P (chats d') = Some c"
  proof (cases "find ?P (chats d)")
    case (Some c0)
    with assms show ?thesis by (simp add: findOrCreate_def Let_def)
  next
    case None
    with assms have c: "c = new_chat now (fresh_id (map c_id (chats d))) (sort [A, B]) I"
      and d': "d' = d\<lparr>chats := chats d @ [c]\<rparr>"
      by (auto simp: findOrCreate_def Let_def split: if_splits)
    have "?P c" by (simp add: c new_chat_def)
    with None show ?thesis by (simp add: d' find_append_None)
  qed
  then have 1: "findOrCreate now' A B I d' = Inr (c, d')"
    by (simp add: findOrCreate_def Let_def)
  have "findOrCreate now' B A I d' = findOrCreate now' A B I d'"
    by (simp only: findOrCreate_def sort_pair_commute [of B A])
  with 1 show ?thesis by simp
qed

text \<open>
  Claim C4 says that for any two users and any item the first \<^verbatim>\<open>FindOrCreate\<close> creates
  the chat when it is absent.  In the sample database user 2 already has a chat with the
  owner 1 of item 1.  When user 3 contacts the owner about the same item, no chat of users 1
  and 3 exists, and the insert of the new chat is rejected: its index key (user 1, item 1) is
  a key of the stored chat.  No chat is answered, and the start request ends with status 500.
\<close>

theorem findOrCreate_second_chat_on_item_fails:
  "find (\<lambda>c. set (sort [3, 1]) \<subseteq> set (participants c) \<and> c_itemId c = 1) (chats sample_db) = None \<and>
   findOrCreate 9 3 1 1 sample_db = Inl DuplicateKey \<and>
   findOrCreate 9 1 3 1 sample_db = Inl DuplicateKey \<and>
   startChat 9 3 1 None sample_db = (Inl server_error, sample_db)"
  by (simp add: findOrCreate_def startChat_def sample_defs item_by_id_def duplicate_key_def
      index_keys_def new_chat_def fresh_id_def Let_def)

section \<open>Starting a chat\<close>

text \<open>
  Claim C9.  When the requester \<open>U\<close> is the poster of the item, the start request answers
  status 400 with ``Cannot start chat with yourself'' and leaves the database as it was, so
  no chat is created.  Conversely a request that succeeds or that changes the database (as
  any creation of a chat does) is one whose item exists and was posted by someone else.
\<close>

theorem startChat_own_item:
  "(\<forall>it. item_by_id itemId d = Some it \<and> postedBy it = U \<longrightarrow>
       startChat now U itemId msg d = (Inl (HttpError 400 ''Cannot start chat with yourself''), d)) \<and>
   (snd (startChat now U itemId msg d) \<noteq> d \<or> \<not> isl (fst (startChat now U itemId msg d)) \<longrightarrow>
       (\<exists>it. item_by_id itemId d = Some it \<and> postedBy it \<noteq> U))"
  by (auto simp: startChat_def split: option.splits)

text \<open>
  User 1 asks to chat about the own item 1 and is refused; user 2 asks about item 5 of user
  3, and a second chat is stored.
\<close>

theorem startChat_own_item_witness:
  "map_option postedBy (item_by_id 1 sample_db) = Some 1 \<and>
   startChat 9 1 1 (Some ''Hello'') sample_db =
     (Inl (HttpError 400 ''Cannot start chat with yourself''), sample_db) \<and>
   map_option postedBy (item_by_id 5 sample_db) = Some 3 \<and>
   \<not> isl (fst (startChat 9 2 5 (Some ''Hello'') sample_db)) \<and>
   map participants (chats (snd (startChat 9 2 5 (Some ''Hello'') sample_db))) = [[1, 2], [2, 3]]"
  using startChat_own_item [of 1 sample_db 1 9 "Some ''Hello''"]
    startChat_own_item [of 5 sample_db 2 9 "Some ''Hello''"]
  by (simp add: startChat_def findOrCreate_def sample_defs item_by_id_def duplicate_key_def
      index_keys_def new_chat_def fresh_id_def Let_def truthy_def or_empty_def message_save_def
      validate_message_def pre_save_hook_def chat_by_id_def save_chat_def incrementUnread_def
      unread_of_def)

section \<open>Updating an item\<close>

lemma apply_updates_frame:
  "apply_updates body it = Inr it' \<Longrightarrow> restore_editable it it' = it"
  by (auto simp: apply_updates_def restore_editable_def Let_def truthy_def
      split: json_field.splits if_splits)

lemma item_by_id_id: "item_by_id i d = Some it \<Longrightarrow> i_id it = i"
  by (auto simp: item_by_id_def find_Some_iff)

lemma apply_updates_id: "apply_updates body it = Inr it' \<Longrightarrow> i_id it' = i_id it"
  by (drule apply_updates_frame) (auto simp: restore_editable_def dest: arg_cong [where f = i_id])

lemma item_by_id_save_item:
  "item_by_id j (save_item it d) =
   (if j = i_id it then map_option (\<lambda>_. it) (item_by_id j d) else item_by_id j d)"
proof (cases "j = i_id it")
  case True
  have "find (\<lambda>x. i_id x = i_id it) (map (\<lambda>x. if i_id x = i_id it then (\<lambda>_. it) x else x) (items d)) =
        map_option (\<lambda>_. it) (find (\<lambda>x. i_id x = i_id it) (items d))"
    by (rule find_map_by_id) simp
  with True show ?thesis by (simp add: item_by_id_def save_item_def)
next
  case False
  have "find (\<lambda>x. i_id x = j) (map (\<lambda>x. if i_id x = i_id it then it else x) xs) =
        find (\<lambda>x. i_id x = j) xs" for xs
    using False by (induction xs) auto
  with False show ?thesis by (simp add: item_by_id_def save_item_def)
qed

lemmas eval_defs = sample_defs sample_location_def sample_item_body_def sample_update_body_def
  sample_uploads_def sf_location_def sf_item_body_def

text \<open>
  Claim C10.  Whatever the body of \<^verbatim>\<open>PUT /api/items/:id\<close> holds and whether the request
  succeeds or fails, the stored item differs from the one before at most in title,
  description, category, location, tags, reward and contactInfo; in particular its type,
  status, postedBy, views, images, expiresAt and potentialMatches are unchanged.
\<close>

theorem updateItem_frame:
  assumes "item_by_id itemId d = Some it"
  shows "\<exists>it'. item_by_id itemId (snd (updateItem userId itemId body d)) = Some it' \<and>
           restore_editable it it' = it \<and>
           itype it' = itype it \<and> status it' = status it \<and> postedBy it' = postedBy it \<and>
           views it' = views it \<and> images it' = images it \<and> expiresAt it' = expiresAt it \<and>
           potentialMatches it' = potentialMatches it"
proof -
  have "\<exists>it'. item_by_id itemId (snd (updateItem userId itemId body d)) = Some it' \<and>
           restore_editable it it' = it"
  proof (cases "apply_updates body it")
    case (Inl e)
    with assms show ?thesis by (simp add: updateItem_def restore_editable_def)
  next
    case (Inr it')
    have id: "i_id it' = itemId"
      using apply_updates_id [OF Inr] item_by_id_id [OF assms] by simp
    show ?thesis
      using assms Inr id apply_updates_frame [OF Inr]
      by (auto simp: updateItem_def item_by_id_save_item restore_editable_def)
  qed
  then obtain it' where 1: "item_by_id itemId (snd (updateItem userId itemId body d)) = Some it'"
    and 2: "restore_editable it it' = it" by blast
  have "itype (restore_editable it it') = itype it'" "status (restore_editable it it') = status it'"
    "postedBy (restore_editable it it') = postedBy it'" "views (restore_editable it it') = views it'"
    "images (restore_editable it it') = images it'" "expiresAt (restore_editable it it') = expiresAt it'"
    "potentialMatches (restore_editable it it') = potentialMatches it'"
    by (simp_all add: restore_editable_def)
  with 1 2 show ?thesis by auto
qed

text \<open>
  The owner of the sample item 1 sends a new title, category and tags together with a
  type, a status, a poster, views, an expiry, matches and images: the title and the category
  change, the type stays \<^verbatim>\<open>'lost'\<close>, the status \<^verbatim>\<open>'active'\<close>, the poster 1, the views 0.
\<close>

theorem updateItem_frame_witness:
  "map_option title (item_by_id 1 sample_db) = Some (ascii ''Phone'') \<and>
   map_option title (item_by_id 1 (snd (updateItem 1 1 sample_update_body sample_db)))
     = Some (ascii ''Lost black phone'') \<and>
   map_option category (item_by_id 1 (snd (updateItem 1 1 sample_update_body sample_db)))
     = Some ''Other'' \<and>
   map_option itype (item_by_id 1 (snd (updateItem 1 1 sample_update_body sample_db)))
     = Some ''lost'' \<and>
   map_option status (item_by_id 1 (snd (updateItem 1 1 sample_update_body sample_db)))
     = Some ''active'' \<and>
   map_option postedBy (item_by_id 1 (snd (updateItem 1 1 sample_update_body sample_db)))
     = Some 1 \<and>
   map_option views (item_by_id 1 (snd (updateItem 1 1 sample_update_body sample_db)))
     = Some 0"
proof -
  have h1: "item_by_id 1 sample_db = Some (sample_item 1 1 ''lost'' ''Electronics'' ''active'' 10 10)"
    by (simp add: item_by_id_def sample_db_def sample_items_def sample_item_def)
  show ?thesis
    using updateItem_frame [OF h1, of 1 sample_update_body]
    by (simp add: updateItem_def apply_updates_def eval_defs item_by_id_def save_item_def
        Let_def truthy_def or_empty_def trim_def is_space_def validate_item_def
        validate_contact_def categories_def ascii_def geo_indexable_def legacy_point_def
        valid_point_def)
qed


section \<open>Creating an item\<close>

lemma le_fold_max: "x \<in> set ids \<Longrightarrow> x \<le> fold max ids (a::nat)"
proof (induction ids arbitrary: a)
  case Nil then show ?case by simp
next
  case (Cons y ys)
  have mono: "b \<le> fold max zs (b::nat)" for b zs
    by (induction zs arbitrary: b) (auto intro: order_trans [OF max.cobounded2])
  from Cons show ?case
    by (auto intro: order_trans [OF max.cobounded1 mono])
qed

lemma fresh_id_notin: "fresh_id ids \<notin> set ids"
  using le_fold_max [of "fresh_id ids" ids 0] by (auto simp: fresh_id_def)

lemma build_item_fields:
  assumes "build_item now i userId body uploads = Inr it"
  shows "i_id it = i" "expiresAt it = now + thirty_days" "potentialMatches it = []"
    "postedBy it = userId" "status it = ''active''" "validate_item it" "views it = 0"
  using assms
  by (auto simp: build_item_def parse_required_def parse_optional_def Let_def
      split: sum.splits option.splits json_field.splits if_splits)

lemma fold_addPotentialMatch:
  assumes "distinct (map i_id ms)"
    and "set (map i_id ms) \<inter> set (map pm_itemId (potentialMatches x)) = {}"
  shows "fold (\<lambda>match y. addPotentialMatch now (i_id match) (7 / 10) y) ms x =
         x\<lparr>potentialMatches := potentialMatches x @ map (match_entry now) ms\<rparr>"
  using assms
proof (induction ms arbitrary: x)
  case Nil
  then show ?case by simp
next
  case (Cons m ms)
  from Cons.prems(2) have "i_id m \<notin> pm_itemId ` set (potentialMatches x)"
    by auto
  then have none: "find (\<lambda>p. pm_itemId p = i_id m) (potentialMatches x) = None"
    unfolding find_None_iff by (metis imageI)
  have step: "addPotentialMatch now (i_id m) (7 / 10) x =
      x\<lparr>potentialMatches := potentialMatches x @ [match_entry now m]\<rparr>"
    by (simp add: addPotentialMatch_def none match_entry_def)
  have "set (map i_id ms) \<inter>
        set (map pm_itemId (potentialMatches (x\<lparr>potentialMatches := potentialMatches x @ [match_entry now m]\<rparr>))) = {}"
    using Cons.prems by (auto simp: match_entry_def)
  with Cons.IH [of "x\<lparr>potentialMatches := potentialMatches x @ [match_entry now m]\<rparr>"] Cons.prems(1)
  show ?case by (simp add: step)
qed

lemma distinct_ids_findPotentialMatches:
  assumes "distinct (map i_id coll)" and "findPotentialMatches gd i t c q coll = Inr ms"
  shows "distinct (map i_id ms)"
proof -
  let ?xs = "near gd (geojson_point q) 50000 (filter (\<lambda>x. i_id x \<noteq> i \<and> itype x = oppositeType t \<and> category x = c \<and>
                        status x = ''active'') coll)"
  from assms(2) have ms: "ms = take 10 ?xs"
    by (simp add: findPotentialMatches_def split: if_splits)
  from assms(1) have "distinct coll" "inj_on i_id (set coll)" by (simp_all add: distinct_map)
  then have "distinct ?xs" "inj_on i_id (set ?xs)"
    by (auto simp: near_def intro: inj_on_subset)
  then have "distinct (take 10 ?xs)" "inj_on i_id (set (take 10 ?xs))"
    by (auto intro: inj_on_subset dest: in_set_takeD)
  then show ?thesis by (simp add: ms distinct_map)
qed

lemma findPotentialMatches_append_self:
  "i_id x = i \<Longrightarrow> findPotentialMatches gd i t c q (coll @ [x]) = findPotentialMatches gd i t c q coll"
  by (simp add: findPotentialMatches_def)

lemma user_by_id_map_users:
  assumes "user_by_id i d = Some u0" and "\<And>x. u_id x = i \<Longrightarrow> u_id (f x) = i"
  shows "user_by_id i (d\<lparr>users := map (\<lambda>x. if u_id x = i then f x else x) (users d)\<rparr>) = Some (f u0)"
proof -
  have "find (\<lambda>x. u_id x = i) (map (\<lambda>x. if u_id x = i then f x else x) (users d)) =
        map_option f (find (\<lambda>x. u_id x = i) (users d))"
    using assms(2) by (rule find_map_by_id)
  with assms(1) show ?thesis by (simp add: user_by_id_def)
qed

lemma user_by_id_id: "user_by_id i d = Some u \<Longrightarrow> u_id u = i"
  by (auto simp: user_by_id_def find_Some_iff)

lemma user_by_id_save_user:
  assumes "user_by_id i d = Some u0" and "u_id u = i"
  shows "user_by_id i (save_user u d) = Some u"
  unfolding save_user_def assms(2)
  using assms(1) by (rule user_by_id_map_users) (rule assms(2))

lemma addPoints_other_fields:
  "u_id (addPoints now pts u) = u_id u" "itemsPosted (addPoints now pts u) = itemsPosted u"
  by (simp_all add: addPoints_def Let_def)

lemma find_append_new:
  "find P xs = None \<Longrightarrow> P x \<Longrightarrow> find P (xs @ [x]) = Some x"
  by (induction xs) (auto split: if_splits)


text \<open>
  What the create route does for a request that passes parsing, upload and validation, made
  by an existing user, when the index can read the coordinates of the item and the database
  accepts them as a query point: the request succeeds, the new item is stored with
  \<^verbatim>\<open>expiresAt\<close> thirty days after the creation time, the poster's \<^verbatim>\<open>itemsPosted\<close> is one
  more and the points are 10 more than before, and the item's \<^verbatim>\<open>potentialMatches\<close> are the
  results of \<^verbatim>\<open>findPotentialMatches\<close> for it, in order, each with confidence 0.7.
\<close>

lemma createItem_succeeds:
  assumes b: "build_item now (fresh_id (map i_id (items d))) userId body uploads = Inr it0"
    and u: "user_by_id userId d = Some u"
    and dist: "distinct (map i_id (items d))"
    and idx: "geo_indexable it0"
    and q: "valid_point (geojson_point (coordinates (location it0)))"
  shows "\<exists>it d' u' found.
           createItem gd now userId body uploads d = (Inr (it, length (potentialMatches it)), d') \<and>
           it = it0\<lparr>potentialMatches := potentialMatches it\<rparr> \<and>
           item_by_id (i_id it) d' = Some it \<and> postedBy it = userId \<and>
           expiresAt it = now + 30 * 24 * 60 * 60 * 1000 \<and>
           user_by_id userId d' = Some u' \<and>
           itemsPosted u' = itemsPosted u + 1 \<and> points u' = points u + 10 \<and>
           findPotentialMatches gd (i_id it) (itype it) (category it)
             (coordinates (location it)) (items d) = Inr found \<and>
           potentialMatches it =
             map (\<lambda>m. \<lparr>pm_itemId = i_id m, confidence = 7 / 10, matchedAt = now\<rparr>) found"
proof -
  define i where "i = fresh_id (map i_id (items d))"
  define d1 where "d1 = d\<lparr>items := items d @ [it0]\<rparr>"
  define u2 where "u2 = u\<lparr>itemsPosted := itemsPosted u + 1\<rparr>"
  define d2 where "d2 = d1\<lparr>users := map (\<lambda>x. if u_id x = userId
                           then x\<lparr>itemsPosted := itemsPosted x + 1\<rparr> else x) (users d1)\<rparr>"
  define u3 where "u3 = addPoints now 10 u2"
  define d3 where "d3 = save_user u3 d2"
  define found where "found = projr (findPotentialMatches gd (i_id it0) (itype it0) (category it0)
                                 (coordinates (location it0)) (items d))"
  define it where "it = fold (\<lambda>match x. addPotentialMatch now (i_id match) (7 / 10) x) found it0"
  note f = build_item_fields [OF b [folded i_def]]
  have "user_by_id userId d1 = Some u"
    using u by (simp add: d1_def user_by_id_def)
  then have u2: "user_by_id userId d2 = Some u2"
    unfolding d2_def u2_def by (rule user_by_id_map_users) simp
  have u3_id: "u_id u3 = userId"
    using user_by_id_id [OF u] by (simp add: u3_def u2_def addPoints_other_fields)
  have u3: "user_by_id userId d3 = Some u3"
    unfolding d3_def using u2 u3_id by (rule user_by_id_save_user)
  have items3: "items d3 = items d @ [it0]"
    by (simp add: d3_def d2_def d1_def save_user_def)
  have fpm: "findPotentialMatches gd (i_id it0) (itype it0) (category it0)
               (coordinates (location it0)) (items d) = Inr found"
    using q by (simp add: found_def findPotentialMatches_def)
  then have fpm3: "findPotentialMatches gd (i_id it0) (itype it0) (category it0)
               (coordinates (location it0)) (items d3) = Inr found"
    by (simp add: items3 findPotentialMatches_append_self)
  have "distinct (map i_id found)"
    using dist fpm by (rule distinct_ids_findPotentialMatches)
  then have it_eq: "it = it0\<lparr>potentialMatches := map (match_entry now) found\<rparr>"
    unfolding it_def using fold_addPotentialMatch [of found it0 now] by (simp add: f)
  have run: "createItem gd now userId body uploads d = (Inr (it, length found), save_item it d3)"
    using b idx u2 fpm3
    by (simp add: createItem_def Let_def d1_def [symmetric] d2_def [symmetric] u3_def [symmetric]
        d3_def [symmetric] it_def [symmetric])
  have len: "length (potentialMatches it) = length found"
    by (simp add: it_eq)
  have "i \<notin> i_id ` set (items d)"
    using fresh_id_notin [of "map i_id (items d)"] by (simp add: i_def)
  then have "find (\<lambda>x. i_id x = i) (items d) = None"
    unfolding find_None_iff by (metis imageI)
  then have "item_by_id i d3 = Some it0"
    by (simp add: item_by_id_def items3 find_append_new f)
  then have stored: "item_by_id (i_id it) (save_item it d3) = Some it"
    by (simp add: item_by_id_save_item it_eq f)
  have user': "user_by_id userId (save_item it d3) = Some u3"
    using u3 by (simp add: user_by_id_def save_item_def)
  have pts: "itemsPosted u3 = itemsPosted u + 1" "points u3 = points u + 10"
    by (simp_all add: u3_def u2_def addPoints_other_fields addPoints_points)
  have fpm': "findPotentialMatches gd (i_id it) (itype it) (category it)
             (coordinates (location it)) (items d) = Inr found"
    using fpm by (simp add: it_eq)
  have pm: "potentialMatches it =
             map (\<lambda>m. \<lparr>pm_itemId = i_id m, confidence = 7 / 10, matchedAt = now\<rparr>) found"
    by (simp add: it_eq match_entry_def [abs_def])
  have same: "it = it0\<lparr>potentialMatches := potentialMatches it\<rparr>"
    by (simp add: it_eq)
  have misc: "postedBy it = userId" "expiresAt it = now + 30 * 24 * 60 * 60 * 1000"
    by (simp_all add: it_eq f thirty_days_def)
  from run len same stored user' pts fpm' pm misc show ?thesis
    by (intro exI [of _ it] exI [of _ "save_item it d3"] exI [of _ u3] exI [of _ found]) simp
qed

text \<open>
  Claim C8 says that every valid creation request stores the item and awards the poster.
  User 2 posts the sample phone found in San Francisco, at latitude 37.77 and longitude
  -122.41.  The request passes parsing, upload and validation; the index reads the stored
  longitude as a latitude of -122.41, out of bounds, and refuses the document.  The route
  answers status 500 and the database is as before: no item 8, nothing posted, no points.
\<close>

theorem createItem_refused_by_index:
  "\<not> isl (build_item 100 (fresh_id (map i_id (items sample_db))) 2 sf_item_body sample_uploads) \<and>
   createItem sd 100 2 sf_item_body sample_uploads sample_db = (Inl server_error, sample_db) \<and>
   item_by_id 8 sample_db = None \<and>
   map_option points (user_by_id 2 sample_db) = Some 0 \<and>
   map_option itemsPosted (user_by_id 2 sample_db) = Some 0"
  by (simp add: createItem_def build_item_def eval_defs parse_required_def parse_optional_def
      fresh_id_def Let_def validate_item_def validate_contact_def categories_def trim_def
      is_space_def or_empty_def ascii_def geo_indexable_def legacy_point_def valid_point_def
      item_by_id_def user_by_id_def)

text \<open>
  The same request at latitude 10 and longitude 10 succeeds: the new item 8 expires at
  100 + 2592000000, user 2 has one item posted and 10 points, and the matches are the found
  items 3 and 2 with confidence 0.7.
\<close>

lemma createItem_sample:
  "map_option itemsPosted
     (user_by_id 2 (snd (createItem flat_dist 100 2 sample_item_body sample_uploads sample_db))) = Some 1 \<and>
   map_option points
     (user_by_id 2 (snd (createItem flat_dist 100 2 sample_item_body sample_uploads sample_db))) = Some 10 \<and>
   map_option expiresAt
     (item_by_id 8 (snd (createItem flat_dist 100 2 sample_item_body sample_uploads sample_db)))
     = Some 2592000100 \<and>
   map_option potentialMatches
     (item_by_id 8 (snd (createItem flat_dist 100 2 sample_item_body sample_uploads sample_db)))
     = Some [\<lparr>pm_itemId = 3, confidence = 7 / 10, matchedAt = 100\<rparr>,
             \<lparr>pm_itemId = 2, confidence = 7 / 10, matchedAt = 100\<rparr>]"
proof -
  define it0 where "it0 = projr (build_item 100 (fresh_id (map i_id (items sample_db))) 2
                                   sample_item_body sample_uploads)"
  have h1: "build_item 100 (fresh_id (map i_id (items sample_db))) 2 sample_item_body sample_uploads =
            Inr it0"
    unfolding it0_def
    by (simp add: build_item_def eval_defs parse_required_def parse_optional_def fresh_id_def
        Let_def validate_item_def validate_contact_def categories_def trim_def is_space_def
        or_empty_def ascii_def)
  have h2: "user_by_id 2 sample_db = Some (new_user 2)"
    by (simp add: user_by_id_def sample_db_def new_user_def)
  have h3: "distinct (map i_id (items sample_db))"
    by (simp add: eval_defs)
  have it0: "i_id it0 = 8" "itype it0 = ''lost''" "category it0 = ''Electronics''"
    "coordinates (location it0) = \<lparr>lat = 10, lng = 10\<rparr>"
    unfolding it0_def
    by (simp_all add: build_item_def eval_defs parse_required_def parse_optional_def fresh_id_def
        Let_def validate_item_def validate_contact_def categories_def trim_def is_space_def
        or_empty_def ascii_def)
  have h4: "geo_indexable it0"
    by (simp add: geo_indexable_def it0 legacy_point_def valid_point_def)
  have h5: "valid_point (geojson_point (coordinates (location it0)))"
    by (simp add: it0 geojson_point_def valid_point_def)
  have found: "findPotentialMatches flat_dist 8 ''lost'' ''Electronics'' \<lparr>lat = 10, lng = 10\<rparr>
         (items sample_db) =
      Inr [sample_item 3 3 ''found'' ''Electronics'' ''active'' (1001 / 100) (1001 / 100),
           sample_item 2 2 ''found'' ''Electronics'' ''active'' (101 / 10) (101 / 10)]"
    by (simp add: findPotentialMatches_def near_def sample_db_def sample_items_def sample_item_def
        flat_dist_def oppositeType_def geojson_point_def legacy_point_def valid_point_def)
  from createItem_succeeds [OF h1 h2 h3 h4 h5, of flat_dist]
  obtain it d' u' ms where
    run: "createItem flat_dist 100 2 sample_item_body sample_uploads sample_db =
            (Inr (it, length (potentialMatches it)), d')"
    and same: "it = it0\<lparr>potentialMatches := potentialMatches it\<rparr>"
    and stored: "item_by_id (i_id it) d' = Some it"
    and expiry: "expiresAt it = 100 + 30 * 24 * 60 * 60 * 1000"
    and usr: "user_by_id 2 d' = Some u'" "itemsPosted u' = itemsPosted (new_user 2) + 1"
      "points u' = points (new_user 2) + 10"
    and fpm: "findPotentialMatches flat_dist (i_id it) (itype it) (category it)
                  (coordinates (location it)) (items sample_db) = Inr ms"
    and pm: "potentialMatches it =
             map (\<lambda>m. \<lparr>pm_itemId = i_id m, confidence = 7 / 10, matchedAt = 100\<rparr>) ms"
    by blast
  have it: "i_id it = 8" "itype it = ''lost''" "category it = ''Electronics''"
    "coordinates (location it) = \<lparr>lat = 10, lng = 10\<rparr>"
    using it0 by (subst same, simp)+
  have d': "snd (createItem flat_dist 100 2 sample_item_body sample_uploads sample_db) = d'"
    by (simp add: run)
  have ms: "ms = [sample_item 3 3 ''found'' ''Electronics'' ''active'' (1001 / 100) (1001 / 100),
           sample_item 2 2 ''found'' ''Electronics'' ''active'' (101 / 10) (101 / 10)]"
    using fpm by (simp only: it found sum.inject)
  have "item_by_id 8 d' = Some it"
    using stored by (simp add: it)
  moreover have "potentialMatches it =
      [\<lparr>pm_itemId = 3, confidence = 7 / 10, matchedAt = 100\<rparr>,
       \<lparr>pm_itemId = 2, confidence = 7 / 10, matchedAt = 100\<rparr>]"
    unfolding pm ms by (simp add: sample_item_def)
  ultimately show ?thesis
    using usr expiry by (simp add: d' new_user_def)
qed

section \<open>Listing messages\<close>












section \<open>Repeated resolves and further chats, in general\<close>

text \<open>
  Every resolve request of the owner adds 50 points, whatever the status of the item, the
  status \<^verbatim>\<open>'resolved'\<close> included.
\<close>

lemma resolveItem_awards:
  assumes it: "item_by_id itemId d = Some it" and own: "postedBy it = U"
    and u: "user_by_id U d = Some u"
  shows "\<exists>u'. user_by_id U (snd (resolveItem now U itemId d)) = Some u' \<and>
               points u' = points u + 50"
proof -
  define d1 where "d1 = save_item (markAsResolved now U it) d"
  have u1: "user_by_id U d1 = Some u"
    using u by (simp add: d1_def user_by_id_def save_item_def)
  have run: "snd (resolveItem now U itemId d) = save_user (addPoints now 50 u) d1"
    using it own u1 by (simp add: resolveItem_def Let_def d1_def)
  have "u_id (addPoints now 50 u) = U"
    using user_by_id_id [OF u] by (simp add: addPoints_other_fields)
  with u1 have "user_by_id U (save_user (addPoints now 50 u) d1) = Some (addPoints now 50 u)"
    by (rule user_by_id_save_user)
  then show ?thesis
    by (simp add: run addPoints_points)
qed

text \<open>
  Whenever \<open>B\<close> takes part in a stored chat about item \<open>I\<close> and no chat of \<open>A\<close> and
  \<open>B\<close> about \<open>I\<close> is stored, \<^verbatim>\<open>findOrCreate\<close> for \<open>A\<close>, \<open>B\<close> and \<open>I\<close> is rejected
  with a duplicate key.
\<close>

lemma findOrCreate_conflict:
  assumes c0: "c0 \<in> set (chats d)" "c_itemId c0 = I" "B \<in> set (participants c0)"
    and none: "find (\<lambda>c. set (sort [A, B]) \<subseteq> set (participants c) \<and> c_itemId c = I) (chats d) = None"
  shows "findOrCreate now A B I d = Inl DuplicateKey"
proof -
  define c where "c = new_chat now (fresh_id (map c_id (chats d))) (sort [A, B]) I"
  have "(Some B, I) \<in> set (index_keys c0)"
    using c0 by (auto simp: index_keys_def)
  moreover have "sort [A, B] \<noteq> []"
    using length_sort [of "\<lambda>x. x" "[A, B]"] by (auto simp del: sort_key_simps length_sort)
  then have "(Some B, I) \<in> set (index_keys c)"
    by (simp add: index_keys_def c_def new_chat_def image_iff del: sort_key_simps)
  ultimately have "duplicate_key c (chats d)"
    using c0(1) unfolding duplicate_key_def list_ex_iff by blast
  with none show ?thesis
    by (simp add: findOrCreate_def Let_def c_def)
qed

end
